theory Spec2Isabelle
  imports Main "HOL-Library.AList"
begin

section \<open>The publisher of node-sdc-changefeed (lib/publisher.js)\<close>

text \<open>
  The module keeps a registry of listeners (two objects keyed by instance name:
  \<open>registrations\<close> and \<open>websockets\<close>), polls a Moray bucket every \<open>pollTime\<close>
  milliseconds for records with \<open>published=no\<close>, pushes each record to the listeners whose
  registration matches it, and writes the record back with \<open>published\<close> set to the time.

  The embedding is shallow. Every callback of the source is a function from the state it
  reads to the state it leaves, the list of calls it makes on its collaborators (the
  \<open>effect\<close>s: websocket sends, emitted events, log lines, Moray requests) and the
  exception that leaves it, if one does. The built-ins \<open>JSON.parse\<close>, \<open>JSON.stringify\<close>
  and \<open>Date.now\<close> are not code of the module: they are arguments of the functions that
  call them.
\<close>

subsection \<open>Data\<close>

text \<open>
  Objects with a \<open>resource\<close> property: the resource descriptors of \<open>options.resources\<close>
  (whose further properties are the extension of the record) and the \<open>changeKind\<close> of a
  registration or of a bucket value.
\<close>

record resource_fields =
  resource :: string

record change_kind = resource_fields +
  subResources :: "string list"

record changeKind_fields =
  changeKind :: change_kind

text \<open>
  The registration a listener sends: \<open>{instance, changeKind}\<close>, with \<open>inst\<close> for the
  property \<open>instance\<close>. The callbacks read these properties without a test: the model
  covers the registrations and the values that have them, with strings and arrays of
  strings where the module's documentation says so.
\<close>

record registration = changeKind_fields +
  inst :: string

text \<open>
  The value of a bucket record: \<open>{changeKind, published, ...}\<close>; what else the producer
  put into it is the extension of the record.
\<close>

record bucket_value = changeKind_fields +
  published :: string

text \<open>
  A record as \<open>findObjects\<close> emits it: \<open>record.key\<close>, and \<open>record.value\<close> as \<open>val\<close>.
\<close>

record 'a bucket_record =
  key :: string
  val :: "'a bucket_value_scheme"

text \<open>A Watershed connection; the module reads nothing of it but its \<open>_id\<close>.\<close>

record websocket =
  ws_id :: nat

record named =
  name :: string

text \<open>An error object (\<open>err.name\<close>, \<open>err.message\<close>), thrown or passed to a callback.\<close>

record error = named +
  message :: string

definition SyntaxError :: error where
  "SyntaxError = \<lparr>name = ''SyntaxError'', message = ''Unexpected end of input''\<rparr>"

definition TypeError :: error where
  "TypeError = \<lparr>name = ''TypeError'', message = ''Cannot read property of undefined''\<rparr>"

definition AssertionError :: error where
  "AssertionError = \<lparr>name = ''AssertionError'', message = ''data (string) is required''\<rparr>"

text \<open>\<open>self.morayBucket\<close>: the bucket's name and its \<open>config.index\<close>, property to type.\<close>

record bucket = named +
  config_index :: "(string \<times> string) list"

datatype signal = moray_connected | moray_ready | item_published | no_items

datatype level = Info | Warn | Error

text \<open>
  What a callback does to the world outside \<open>self\<close>, in the order it does it. A log line
  keeps its level and its format string (empty where the source logs an object alone).
  \<open>Send w data\<close> is a frame that \<open>w.send(data)\<close> has written.
\<close>

datatype 'a effect =
    Send websocket "string option"
  | Emit signal
  | Log level string
  | FindObjects string string
  | PutObject string string "'a bucket_value_scheme"
  | GetBucket string
  | CreateBucket string "(string \<times> string) list"
  | MorayClose
  | SocketEnd

subsection \<open>Objects used as dictionaries\<close>

text \<open>
  \<open>self.registrations\<close> and \<open>self.websockets\<close> are plain objects. An object is the list of
  its own properties in the order \<open>for (k in obj)\<close> visits them: the array indices (the
  canonical decimal strings below \<open>2^32 - 1\<close>) in ascending order, then the other names in
  the order of their creation. The name \<open>__proto__\<close>, which an assignment does not make an
  own property, is outside the model.
\<close>

type_synonym 'v obj = "(string \<times> 'v) list"

definition is_digit :: "char \<Rightarrow> bool" where
  "is_digit c = (48 \<le> (of_char c :: nat) \<and> (of_char c :: nat) \<le> 57)"

definition index_value :: "string \<Rightarrow> nat" where
  "index_value s = foldl (\<lambda>n c. 10 * n + ((of_char c :: nat) - 48)) 0 s"

definition is_array_index :: "string \<Rightarrow> bool" where
  "is_array_index s =
     (s \<noteq> [] \<and> list_all is_digit s \<and> (length s = 1 \<or> hd s \<noteq> CHR ''0'')
      \<and> index_value s < 4294967295)"

text \<open>Creating the property \<open>k\<close>, which the object does not have yet.\<close>

fun obj_create :: "string \<Rightarrow> 'v \<Rightarrow> 'v obj \<Rightarrow> 'v obj" where
  "obj_create k v [] = [(k, v)]"
| "obj_create k v (p # ps) =
     (if is_array_index k \<and> (\<not> is_array_index (fst p) \<or> index_value k < index_value (fst p))
      then (k, v) # p # ps
      else p # obj_create k v ps)"

text \<open>\<open>obj[k] = v\<close>: an existing property keeps its place.\<close>

definition obj_set :: "string \<Rightarrow> 'v \<Rightarrow> 'v obj \<Rightarrow> 'v obj" where
  "obj_set k v ps =
     (if k \<in> fst ` set ps then AList.update k v ps else obj_create k v ps)"

text \<open>\<open>obj[k]\<close>, with \<open>None\<close> for \<open>undefined\<close>, and \<open>delete obj[k]\<close>.\<close>

definition obj_get :: "'v obj \<Rightarrow> string \<Rightarrow> 'v option" where
  "obj_get ps k = map_of ps k"

definition obj_delete :: "string \<Rightarrow> 'v obj \<Rightarrow> 'v obj" where
  "obj_delete k ps = AList.delete k ps"

definition obj_keys :: "'v obj \<Rightarrow> string list" where
  "obj_keys ps = map fst ps"

subsection \<open>Built-ins of the language\<close>

text \<open>\<open>xs.indexOf(x)\<close>: the first position of \<open>x\<close>, or \<open>-1\<close>.\<close>

fun indexOf :: "'a list \<Rightarrow> 'a \<Rightarrow> int" where
  "indexOf [] x = -1"
| "indexOf (y # ys) x =
     (if y = x then 0 else (let i = indexOf ys x in if i = -1 then -1 else i + 1))"

text \<open>\<open>n.toString()\<close> of an integral number: decimal digits, with a sign when negative.\<close>

fun digits :: "nat \<Rightarrow> string" where
  "digits n = (if n < 10 then [char_of (48 + n)] else digits (n div 10) @ [char_of (48 + n mod 10)])"

declare digits.simps [simp del]

definition toString :: "int \<Rightarrow> string" where
  "toString n = (if n < 0 then CHR ''-'' # digits (nat (- n)) else digits (nat n))"

subsection \<open>The publisher object\<close>

text \<open>
  The fields of \<open>self\<close> that the callbacks read or write: the handle of the polling
  interval (\<open>None\<close> for \<open>null\<close>), the two registry objects, the bucket and the resource
  descriptors. The Moray client and the log are collaborators: calls on them are effects.
\<close>

record 'd publisher =
  pollInterval :: "nat option"
  registrations :: "registration obj"
  websockets :: "websocket obj"
  morayBucket :: bucket
  resources :: "'d resource_fields_scheme list"

record 'd options =
  morayBucketName :: string
  opt_resources :: "'d resource_fields_scheme list"

text \<open>
  The period of the poll, in milliseconds. The model has no clock: an interval that is
  set fires when the event loop runs it.
\<close>

definition pollTime :: nat where
  "pollTime = 2000"

definition Publisher :: "'d options \<Rightarrow> 'd publisher" where
  "Publisher opts =
     \<lparr>pollInterval = None,
      registrations = [],
      websockets = [],
      morayBucket = \<lparr>name = morayBucketName opts, config_index = [(''published'', ''string'')]\<rparr>,
      resources = opt_resources opts\<rparr>"

text \<open>
  What a callback leaves: the state (or the record) it mutated, the calls it made, and
  the exception that ended it, if any. The calls made before a throw have been made.
\<close>

type_synonym ('s, 'a) outcome = "'s \<times> 'a effect list \<times> error option"

subsection \<open>Registration: \<open>_register\<close>\<close>

text \<open>
  The loop over \<open>self.resources\<close>: every descriptor with the registration's resource is
  logged as accepted, the last one is the response.
\<close>

fun accept_loop ::
  "'d resource_fields_scheme list \<Rightarrow> registration \<Rightarrow> 'd resource_fields_scheme option \<Rightarrow>
   'd resource_fields_scheme option \<times> 'a effect list" where
  "accept_loop [] registration response = (response, [])"
| "accept_loop (r # rs) registration response =
     (if resource r = resource (changeKind registration)
      then (let (response', es) = accept_loop rs registration (Some r)
            in (response', Log Info ''Accepting valid registration response'' # es))
      else accept_loop rs registration response)"

text \<open>
  The listener of the first \<open>text\<close> frame of a websocket. \<open>JSON.parse\<close> either throws or
  gives the registration; the registration is stored under \<open>registration.instance\<close> in
  both objects before the resources are looked at.
\<close>

definition register ::
  "(string \<Rightarrow> error + registration) \<Rightarrow> ('d resource_fields_scheme \<Rightarrow> error + string) \<Rightarrow>
   'd publisher \<Rightarrow> websocket \<Rightarrow> string \<Rightarrow> ('d publisher, 'a) outcome" where
  "register JSON_parse JSON_stringify self websocket text =
     (case JSON_parse text of
        Inl ex \<Rightarrow> (self, [], Some ex)
      | Inr registration \<Rightarrow>
          (let self1 = self\<lparr>websockets := obj_set (inst registration) websocket (websockets self)\<rparr>;
               self2 = self1\<lparr>registrations :=
                          obj_set (inst registration) registration (registrations self1)\<rparr>;
               (response, es) = accept_loop (resources self2) registration None
           in case response of
                Some r \<Rightarrow>
                  (case JSON_stringify r of
                     Inl ex \<Rightarrow> (self2, es, Some ex)
                   | Inr s \<Rightarrow> (self2, es @ [Send websocket (Some s)], None))
              | None \<Rightarrow> (self2, es @ [Log Warn ''Invalid registration resource: %s''], None)))"

subsection \<open>Cleanup: \<open>_end\<close> and \<open>_connectionReset\<close>\<close>

text \<open>
  Both listeners run the same loop over the names of \<open>self.registrations\<close>, with \<open>this\<close>
  the websocket that ended. Reading \<open>_id\<close> of a missing \<open>self.websockets[instance]\<close>
  throws. The loop deletes no name but the one it is visiting, so the names still to
  visit are those the loop started with.
\<close>

fun collect :: "websocket \<Rightarrow> string list \<Rightarrow> 'd publisher \<Rightarrow> ('d publisher, 'a) outcome" where
  "collect this [] self = (self, [], None)"
| "collect this (iname # rest) self =
     (case obj_get (websockets self) iname of
        None \<Rightarrow> (self, [], Some TypeError)
      | Some w \<Rightarrow>
          if ws_id this = ws_id w
          then (let self1 = self\<lparr>websockets := obj_delete iname (websockets self)\<rparr>;
                    self2 = self1\<lparr>registrations := obj_delete iname (registrations self1)\<rparr>;
                    (self3, es, ex) = collect this rest self2
                in (self3, Log Info ''Collecting instance: %s'' # es, ex))
          else collect this rest self)"

definition on_end :: "'d publisher \<Rightarrow> websocket \<Rightarrow> ('d publisher, 'a) outcome" where
  "on_end self this = collect this (obj_keys (registrations self)) self"

definition connectionReset :: "'d publisher \<Rightarrow> websocket \<Rightarrow> ('d publisher, 'a) outcome" where
  "connectionReset self this = collect this (obj_keys (registrations self)) self"

subsection \<open>The poll: \<open>_poll\<close>, \<open>_record\<close>, \<open>_noItems\<close>, \<open>_reqErr\<close>, \<open>_mark\<close>\<close>

text \<open>
  \<open>send\<close> of a Watershed connection, which is not code of the module: it asserts that its
  argument is a string (or a Buffer) and throws an \<open>AssertionError\<close> when it is not,
  before it writes anything. \<open>None\<close> is \<open>null\<close>.
\<close>

definition send :: "websocket \<Rightarrow> string option \<Rightarrow> 'a effect list \<times> error option" where
  "send w data =
     (case data of
        None \<Rightarrow> ([], Some AssertionError)
      | Some s \<Rightarrow> ([Send w (Some s)], None))"

text \<open>
  The inner loop of \<open>_record\<close>, over the record's \<open>subResources\<close>: at the first one the
  registration lists too, send, log, emit and \<open>break\<close>. \<open>regWebsocket\<close> is
  \<open>self.websockets[instance]\<close>, \<open>strValue\<close> the serialized value or \<open>null\<close>. Nothing
  in \<open>_record\<close> catches what \<open>send\<close> throws.
\<close>

fun scan ::
  "websocket option \<Rightarrow> string option \<Rightarrow> string list \<Rightarrow> string list \<Rightarrow>
   'a effect list \<times> error option" where
  "scan regWebsocket strValue regSubResources [] = ([], None)"
| "scan regWebsocket strValue regSubResources (x # xs) =
     (if indexOf regSubResources x \<noteq> -1
      then (case regWebsocket of
              None \<Rightarrow> ([], Some TypeError)
            | Some w \<Rightarrow>
                (case send w strValue of
                   (es, Some ex) \<Rightarrow> (es, Some ex)
                 | (es, None) \<Rightarrow> (es @ [Log Info ''Published: %s'', Emit item_published], None)))
      else scan regWebsocket strValue regSubResources xs)"

text \<open>The outer loop, over the names of \<open>self.registrations\<close>.\<close>

fun deliver ::
  "'d publisher \<Rightarrow> 'a bucket_value_scheme \<Rightarrow> string option \<Rightarrow> string list \<Rightarrow>
   'a effect list \<times> error option" where
  "deliver self v strValue [] = ([], None)"
| "deliver self v strValue (iname # rest) =
     (let regWebsocket = obj_get (websockets self) iname
      in case obj_get (registrations self) iname of
           None \<Rightarrow> ([], Some TypeError)
         | Some reg \<Rightarrow>
             (let regChangeKind = changeKind reg
              in if resource regChangeKind = resource (changeKind v)
                 then (case scan regWebsocket strValue (subResources regChangeKind)
                              (subResources (changeKind v)) of
                         (es, Some ex) \<Rightarrow> (es, Some ex)
                       | (es, None) \<Rightarrow>
                           (let (es', ex) = deliver self v strValue rest in (es @ es', ex)))
                 else (let (es', ex) = deliver self v strValue rest
                       in (Log Info ''No registrations for value: %j'' # es', ex))))"

text \<open>
  \<open>_record\<close>: set \<open>published\<close> to the time, serialize (a failure is caught and logged, and
  \<open>strValue\<close> stays \<open>null\<close>), run the loops, put the value back under the record's key.
  An exception of the loops leaves the callback before the \<open>putObject\<close>. The result
  carries the record as mutated.
\<close>

definition on_record ::
  "('a bucket_value_scheme \<Rightarrow> error + string) \<Rightarrow> int \<Rightarrow> 'd publisher \<Rightarrow> 'a bucket_record \<Rightarrow>
   ('a bucket_record, 'a) outcome" where
  "on_record JSON_stringify now self record =
     (let v = (val record)\<lparr>published := toString now\<rparr>;
          record' = record\<lparr>val := v\<rparr>;
          (strValue, es1) =
             (case JSON_stringify v of
                Inr s \<Rightarrow> (Some s, [])
              | Inl ex \<Rightarrow> (None, [Log Error ''Error serializing value: %s'']));
          (es2, thrown) = deliver self v strValue (obj_keys (registrations self))
      in case thrown of
           Some ex \<Rightarrow> (record', Log Info [] # es1 @ es2, Some ex)
         | None \<Rightarrow>
             (record',
              Log Info [] # es1 @ es2 @ [PutObject (name (morayBucket self)) (key record) v],
              None))"

definition poll :: "'d publisher \<Rightarrow> 'a effect list" where
  "poll self = [FindObjects (name (morayBucket self)) ''(published=no)'']"

definition reqErr :: "'a effect list" where
  "reqErr = [Log Warn []]"

definition noItems :: "'a effect list" where
  "noItems = [Emit no_items, Log Info ''findObjects ended'']"

definition mark :: "'a effect list" where
  "mark = [Log Info ''marking %s published'']"

subsection \<open>The bucket: \<open>_setupBucket\<close> and its callbacks\<close>

definition bucketSetupError :: "error option \<Rightarrow> 'a effect list" where
  "bucketSetupError err =
     (case err of
        Some e \<Rightarrow> [Log Error ''Bucket was not loaded'']
      | None \<Rightarrow> [Log Info ''Bucket successfully loaded'', Emit moray_ready])"

definition createBucket :: "'d publisher \<Rightarrow> 'a effect list" where
  "createBucket self =
     [CreateBucket (name (morayBucket self)) (config_index (morayBucket self))]"

definition getBucket :: "'d publisher \<Rightarrow> 'a effect list" where
  "getBucket self = [GetBucket (name (morayBucket self))]"

text \<open>
  \<open>_getBucketError\<close>, the callback of \<open>getBucket\<close> inside \<open>_setupBucket(cb)\<close>. After
  \<open>self._createBucket(cb)\<close> the control falls out of the \<open>if\<close> to the final
  \<open>return cb(err)\<close>; \<open>cb\<close> runs again when \<open>createBucket\<close> completes.
\<close>

definition getBucketError ::
  "(error option \<Rightarrow> 'a effect list) \<Rightarrow> 'd publisher \<Rightarrow> error option \<Rightarrow> 'a effect list" where
  "getBucketError cb self err =
     (case err of
        Some e \<Rightarrow>
          if name e = ''BucketNotFoundError''
          then createBucket self @ cb err
          else cb err
      | None \<Rightarrow> cb err)"

text \<open>
  \<open>_morayConnect\<close>, the listener of the client's \<open>connect\<close>. It also attaches the
  listener that logs the client's later errors, which does nothing else.
\<close>

definition morayConnect :: "'d publisher \<Rightarrow> 'a effect list" where
  "morayConnect self = [Log Info ''moray: connected'', Emit moray_connected] @ getBucket self"

subsection \<open>\<open>start\<close>, \<open>stop\<close>, \<open>publish\<close> and the event loop\<close>

text \<open>
  The publisher runs on Node's event loop. Beside \<open>self\<close>, the state holds what the
  platform keeps for it: the interval timers that are set (\<open>setInterval\<close> hands out a
  fresh handle, \<open>clearInterval\<close> drops the one it is given) and the websockets whose
  \<open>once('text', ...)\<close> listener has not run yet.
\<close>

record 'd world =
  pub :: "'d publisher"
  intervals :: "nat list"
  next_handle :: nat
  awaiting_text :: "nat list"

definition boot :: "'d options \<Rightarrow> 'd world" where
  "boot opts = \<lparr>pub = Publisher opts, intervals = [], next_handle = 0, awaiting_text = []\<rparr>"

definition setInterval :: "'d world \<Rightarrow> nat \<times> 'd world" where
  "setInterval w =
     (next_handle w, w\<lparr>intervals := intervals w @ [next_handle w],
                        next_handle := Suc (next_handle w)\<rparr>)"

definition clearInterval :: "nat option \<Rightarrow> 'd world \<Rightarrow> 'd world" where
  "clearInterval h w =
     (case h of None \<Rightarrow> w | Some n \<Rightarrow> w\<lparr>intervals := removeAll n (intervals w)\<rparr>)"

definition start :: "'d world \<Rightarrow> 'd world" where
  "start w = (let (h, w') = setInterval w in w'\<lparr>pub := (pub w')\<lparr>pollInterval := Some h\<rparr>\<rparr>)"

definition stop :: "'d world \<Rightarrow> 'd world \<times> 'a effect list" where
  "stop w = (clearInterval (pollInterval (pub w)) w, [MorayClose])"

text \<open>\<open>publish\<close> through \<open>_putObject\<close>, with the key \<open>mod_libuuid.v4()\<close> returned.\<close>

definition publish :: "'d publisher \<Rightarrow> string \<Rightarrow> 'a bucket_value_scheme \<Rightarrow> 'a effect list" where
  "publish self uuid item = [PutObject (name (morayBucket self)) uuid item]"

text \<open>
  What the event loop can run next: a call of the module's interface, an interval that
  fires, an event of a \<open>findObjects\<close> request (a record comes with the value of
  \<open>Date.now()\<close> at that moment), the completion of a Moray request, a connection upgrade
  (\<open>None\<close> when \<open>shed.accept\<close> throws), an event of a websocket.
\<close>

datatype 'a event =
    Call_start
  | Call_stop
  | Call_publish string "'a bucket_value_scheme"
  | Interval_fires nat
  | Req_error
  | Req_record int "'a bucket_record"
  | Req_end
  | PutObject_done
  | Moray_connect
  | GetBucket_done "error option"
  | CreateBucket_done "error option"
  | Upgrade "websocket option"
  | Ws_text websocket string
  | Ws_end websocket
  | Ws_connectionReset websocket

definition upgrade :: "'d world \<Rightarrow> websocket option \<Rightarrow> ('d world, 'a) outcome" where
  "upgrade w accepted =
     (case accepted of
        None \<Rightarrow> (w, [Log Info ''websocket upgrade taking place'', Log Error ''error: '', SocketEnd], None)
      | Some websocket \<Rightarrow>
          (w\<lparr>awaiting_text := ws_id websocket # awaiting_text w\<rparr>,
           [Log Info ''websocket upgrade taking place''], None))"

fun step ::
  "(string \<Rightarrow> error + registration) \<Rightarrow> ('d resource_fields_scheme \<Rightarrow> error + string) \<Rightarrow>
   ('a bucket_value_scheme \<Rightarrow> error + string) \<Rightarrow> 'd world \<Rightarrow> 'a event \<Rightarrow>
   ('d world, 'a) outcome" where
  "step P D V w Call_start = (start w, [], None)"
| "step P D V w Call_stop = (let (w', es) = stop w in (w', es, None))"
| "step P D V w (Call_publish uuid item) = (w, publish (pub w) uuid item, None)"
| "step P D V w (Interval_fires h) =
     (if h \<in> set (intervals w) then (w, poll (pub w), None) else (w, [], None))"
| "step P D V w Req_error = (w, reqErr, None)"
| "step P D V w (Req_record now r) =
     (let (r', es, ex) = on_record V now (pub w) r in (w, es, ex))"
| "step P D V w Req_end = (w, noItems, None)"
| "step P D V w PutObject_done = (w, mark, None)"
| "step P D V w Moray_connect = (w, morayConnect (pub w), None)"
| "step P D V w (GetBucket_done err) = (w, getBucketError bucketSetupError (pub w) err, None)"
| "step P D V w (CreateBucket_done err) = (w, bucketSetupError err, None)"
| "step P D V w (Upgrade accepted) = upgrade w accepted"
| "step P D V w (Ws_text websocket text) =
     (if ws_id websocket \<in> set (awaiting_text w)
      then (let w' = w\<lparr>awaiting_text := removeAll (ws_id websocket) (awaiting_text w)\<rparr>;
                (self', es, ex) = register P D (pub w') websocket text
            in (w'\<lparr>pub := self'\<rparr>, es, ex))
      else (w, [], None))"
| "step P D V w (Ws_end websocket) =
     (let (self', es, ex) = on_end (pub w) websocket in (w\<lparr>pub := self'\<rparr>, es, ex))"
| "step P D V w (Ws_connectionReset websocket) =
     (let (self', es, ex) = connectionReset (pub w) websocket in (w\<lparr>pub := self'\<rparr>, es, ex))"

text \<open>
  A run of the event loop: the events in turn, the effects in order. An exception that
  leaves a callback is not caught by the module: the run ends there.
\<close>

fun run ::
  "(string \<Rightarrow> error + registration) \<Rightarrow> ('d resource_fields_scheme \<Rightarrow> error + string) \<Rightarrow>
   ('a bucket_value_scheme \<Rightarrow> error + string) \<Rightarrow> 'd world \<Rightarrow> 'a event list \<Rightarrow>
   ('d world, 'a) outcome" where
  "run P D V w [] = (w, [], None)"
| "run P D V w (e # evs) =
     (case step P D V w e of
        (w', es, Some ex) \<Rightarrow> (w', es, Some ex)
      | (w', es, None) \<Rightarrow> (let (w'', es', ex) = run P D V w' evs in (w'', es @ es', ex)))"

subsection \<open>Vocabulary of the properties\<close>

text \<open>
  A record is deliverable to a registration when their resources are equal and their
  \<open>subResources\<close> have an element in common.
\<close>

definition matches :: "registration \<Rightarrow> 'a bucket_value_scheme \<Rightarrow> bool" where
  "matches g v \<longleftrightarrow>
     resource (changeKind g) = resource (changeKind v)
     \<and> set (subResources (changeKind g)) \<inter> set (subResources (changeKind v)) \<noteq> {}"


fun is_Send :: "'a effect \<Rightarrow> bool" where
  "is_Send (Send w p) = True"
| "is_Send e = False"

fun is_PutObject :: "'a effect \<Rightarrow> bool" where
  "is_PutObject (PutObject b k v) = True"
| "is_PutObject e = False"

fun is_Log :: "'a effect \<Rightarrow> bool" where
  "is_Log (Log l m) = True"
| "is_Log e = False"



text \<open>
  The registry as the module keeps it: each object has a name once, and a name is in
  \<open>self.registrations\<close> exactly when it is in \<open>self.websockets\<close>.
\<close>

definition registry_ok :: "'d publisher \<Rightarrow> bool" where
  "registry_ok self \<longleftrightarrow>
     distinct (obj_keys (registrations self)) \<and> distinct (obj_keys (websockets self))
     \<and> set (obj_keys (registrations self)) = set (obj_keys (websockets self))"

subsection \<open>Data of the examples\<close>

text \<open>
  The examples run the module on the scenario of its documentation: one resource
  descriptor \<open>vm\<close>, a listener \<open>i1\<close> interested in the \<open>nics\<close> of \<open>vm\<close>, a second
  listener \<open>i2\<close> asking for a resource \<open>net\<close> that is not configured, and bucket values
  about the \<open>nics\<close> and \<open>tags\<close> of a \<open>vm\<close>. A bucket value of the examples has either no
  further property or one that refers back to the value, which no serializer accepts.
\<close>

datatype further = Nothing | Self_reference

definition vm_descriptor :: change_kind where
  "vm_descriptor = \<lparr>resource = ''vm'', subResources = [''nics'', ''metadata'']\<rparr>"

definition opts1 :: "(unit change_kind_ext) options" where
  "opts1 = \<lparr>morayBucketName = ''change_feed_bucket'', opt_resources = [vm_descriptor]\<rparr>"

definition reg_i1 :: registration where
  "reg_i1 = \<lparr>changeKind = \<lparr>resource = ''vm'', subResources = [''nics'']\<rparr>, inst = ''i1''\<rparr>"

definition reg_i2 :: registration where
  "reg_i2 = \<lparr>changeKind = \<lparr>resource = ''net'', subResources = [''nics'']\<rparr>, inst = ''i2''\<rparr>"

definition text_i1 :: string where
  \<open>text_i1 = ''{"instance":"i1","changeKind":{"resource":"vm","subResources":["nics"]}}''\<close>

definition text_i2 :: string where
  \<open>text_i2 = ''{"instance":"i2","changeKind":{"resource":"net","subResources":["nics"]}}''\<close>

definition text_bad :: string where
  \<open>text_bad = ''{"instance":''\<close>

text \<open>\<open>JSON.parse\<close> on the three texts above; the examples give it no other text.\<close>

definition parse1 :: "string \<Rightarrow> error + registration" where
  "parse1 text =
     (if text = text_i1 then Inr reg_i1
      else if text = text_i2 then Inr reg_i2
      else Inl SyntaxError)"

text \<open>\<open>JSON.stringify\<close> on the objects of the examples, whose strings need no escape.\<close>

definition quoted :: "string \<Rightarrow> string" where
  \<open>quoted s = ''"'' @ s @ ''"''\<close>

fun join :: "string \<Rightarrow> string list \<Rightarrow> string" where
  "join sep [] = []"
| "join sep [x] = x"
| "join sep (x # y # ys) = x @ sep @ join sep (y # ys)"

definition kind_text :: "change_kind \<Rightarrow> string" where
  \<open>kind_text ck =
     ''{"resource":'' @ quoted (resource ck) @ '',"subResources":[''
       @ join '','' (map quoted (subResources ck)) @ '']}''\<close>

definition stringify_kind :: "change_kind \<Rightarrow> error + string" where
  "stringify_kind ck = Inr (kind_text ck)"

definition stringify_value :: "further bucket_value_scheme \<Rightarrow> error + string" where
  \<open>stringify_value v =
     (case bucket_value.more v of
        Self_reference \<Rightarrow>
          Inl \<lparr>name = ''TypeError'', message = ''Converting circular structure to JSON''\<rparr>
      | Nothing \<Rightarrow>
          Inr (''{"changeKind":'' @ kind_text (changeKind v)
                 @ '',"published":'' @ quoted (published v) @ ''}''))\<close>

definition ws1 :: websocket where
  "ws1 = \<lparr>ws_id = 1\<rparr>"

definition ws2 :: websocket where
  "ws2 = \<lparr>ws_id = 2\<rparr>"

definition value_nics :: "further bucket_value_scheme" where
  "value_nics = \<lparr>changeKind = \<lparr>resource = ''vm'', subResources = [''nics'', ''tags'']\<rparr>,
                  published = ''no'', \<dots> = Nothing\<rparr>"


definition value_cyclic :: "further bucket_value_scheme" where
  "value_cyclic = \<lparr>changeKind = \<lparr>resource = ''vm'', subResources = [''nics'']\<rparr>,
                    published = ''no'', \<dots> = Self_reference\<rparr>"

definition record_nics :: "further bucket_record" where
  "record_nics = \<lparr>key = ''k1'', val = value_nics\<rparr>"


definition record_nics2 :: "further bucket_record" where
  "record_nics2 = \<lparr>key = ''k4'', val = value_nics\<rparr>"

definition record_cyclic :: "further bucket_record" where
  "record_cyclic = \<lparr>key = ''k3'', val = value_cyclic\<rparr>"

text \<open>An error of Moray other than \<open>BucketNotFoundError\<close>.\<close>

definition other_error :: error where
  "other_error = \<lparr>name = ''NoDatabasePeersError'', message = ''no database peers''\<rparr>"

definition not_found :: error where
  "not_found = \<lparr>name = ''BucketNotFoundError'', message = ''change_feed_bucket does not exist''\<rparr>"

text \<open>The publisher with nobody registered, and with \<open>i1\<close> registered on \<open>ws1\<close>.\<close>

definition self0 :: "(unit change_kind_ext) publisher" where
  "self0 = Publisher opts1"

definition self1 :: "(unit change_kind_ext) publisher" where
  "self1 = self0\<lparr>registrations := [(''i1'', reg_i1)], websockets := [(''i1'', ws1)]\<rparr>"

text \<open>The publisher with \<open>i1\<close> on \<open>ws1\<close> and \<open>i2\<close> on \<open>ws2\<close>.\<close>

definition self2 :: "(unit change_kind_ext) publisher" where
  "self2 = self0\<lparr>registrations := [(''i1'', reg_i1), (''i2'', reg_i2)],
                   websockets := [(''i1'', ws1), (''i2'', ws2)]\<rparr>"

definition world1 :: "(unit change_kind_ext) world" where
  "world1 = \<lparr>pub = self1, intervals = [], next_handle = 0, awaiting_text = []\<rparr>"

section \<open>Properties\<close>

subsection \<open>Built-ins and objects\<close>

lemma indexOf_ge: "- 1 \<le> indexOf xs x"
  by (induction xs) (auto simp: Let_def)

lemma indexOf_member: "indexOf xs x \<noteq> - 1 \<longleftrightarrow> x \<in> set xs"
proof (induction xs)
  case Nil
  show ?case by simp
next
  case (Cons y ys)
  have "- 1 \<le> indexOf ys x" by (rule indexOf_ge)
  with Cons show ?case by (auto simp: Let_def)
qed

lemma digits_nonempty: "digits n \<noteq> []"
  by (subst digits.simps) simp

lemma last_digits: "last (digits n) = char_of (48 + n mod 10)"
  by (subst digits.simps) (simp add: digits_nonempty)

lemma last_toString: "\<exists>m::nat. last (toString n) = char_of (48 + m mod 10)"
  unfolding toString_def using last_digits digits_nonempty by (cases "n < 0") auto

text \<open>A time written in decimal ends in a digit: it is never the marker \<open>no\<close>.\<close>

lemma toString_not_no: "toString n \<noteq> ''no''"
proof
  assume a: "toString n = ''no''"
  obtain m :: nat where m: "last (toString n) = char_of (48 + m mod 10)"
    using last_toString by blast
  have "(of_char (last (toString n)) :: nat) = 111" using a by simp
  moreover have "(of_char (char_of (48 + m mod 10 :: nat)) :: nat) < 58"
    by (simp add: of_char_of)
  ultimately show False using m by simp
qed

lemma set_obj_create: "set (obj_create k v ps) = insert (k, v) (set ps)"
  by (induction ps) auto


lemma distinct_obj_create:
  "k \<notin> fst ` set ps \<Longrightarrow> distinct (map fst ps) \<Longrightarrow> distinct (map fst (obj_create k v ps))"
  by (induction ps) (auto simp: set_obj_create)


lemma keys_obj_set: "set (obj_keys (obj_set k v ps)) = insert k (set (obj_keys ps))"
  by (auto simp: obj_keys_def obj_set_def set_obj_create dom_update)

lemma distinct_obj_set: "distinct (obj_keys ps) \<Longrightarrow> distinct (obj_keys (obj_set k v ps))"
  by (simp add: obj_keys_def obj_set_def distinct_obj_create distinct_update)

lemma obj_get_delete: "obj_get (obj_delete k ps) k' = (if k' = k then None else obj_get ps k')"
  by (simp add: obj_get_def obj_delete_def delete_conv')

lemma keys_obj_delete: "obj_keys (obj_delete k ps) = removeAll k (obj_keys ps)"
  by (simp add: obj_keys_def obj_delete_def delete_keys)

lemma obj_get_None: "obj_get ps k = None \<longleftrightarrow> k \<notin> set (obj_keys ps)"
  by (simp add: obj_get_def obj_keys_def map_of_eq_None_iff)

subsection \<open>The loops of \<open>_record\<close>\<close>

lemma scan_eq:
  "scan regWebsocket strValue rs xs =
     (if set rs \<inter> set xs = {} then ([], None)
      else case regWebsocket of
             None \<Rightarrow> ([], Some TypeError)
           | Some w \<Rightarrow>
               (case strValue of
                  None \<Rightarrow> ([], Some AssertionError)
                | Some s \<Rightarrow>
                    ([Send w (Some s), Log Info ''Published: %s'', Emit item_published], None)))"
  by (induction xs) (auto simp: indexOf_member send_def split: option.splits)


lemma registry_ok_lookup:
  assumes "registry_ok self" and "k \<in> set (obj_keys (registrations self))"
  shows "obj_get (registrations self) k \<noteq> None \<and> obj_get (websockets self) k \<noteq> None"
  using assms by (simp add: registry_ok_def obj_get_None)







lemma deliver_effects:
  "deliver self v sv ks = (es, ex) \<Longrightarrow>
     \<forall>e \<in> set es. (\<forall>w p. e = Send w p \<longrightarrow> p = sv) \<and> \<not> is_PutObject e"
proof (induction ks arbitrary: es ex)
  case Nil
  then show ?case by simp
next
  case (Cons k ks)
  obtain es' ex' where r: "deliver self v sv ks = (es', ex')" by (cases "deliver self v sv ks")
  from Cons.IH [OF r] have ih: "\<forall>e \<in> set es'. (\<forall>w p. e = Send w p \<longrightarrow> p = sv) \<and> \<not> is_PutObject e" .
  from Cons.prems r ih show ?case
    by (auto simp: scan_eq Let_def split: option.splits if_splits)
qed


subsection \<open>Delivery of a record\<close>





text \<open>
  Claim C10. The callback of a record sets \<open>published\<close> to the time before it
  serializes the value. So every send of the callback carries the serialization \<open>s\<close> of
  the value that \<open>putObject\<close> writes back under the record's key, and the \<open>published\<close>
  of that value is the time as a string, never \<open>no\<close>.
\<close>

theorem sent_and_written_same_value:
  fixes self :: "'d publisher" and R :: "'a bucket_record"
  assumes ser: "JSON_stringify ((val R)\<lparr>published := toString now\<rparr>) = Inr s"
    and run: "on_record JSON_stringify now self R = (R', es, thrown)"
  shows "val R' = (val R)\<lparr>published := toString now\<rparr>
       \<and> published (val R') = toString now
       \<and> published (val R') \<noteq> ''no''
       \<and> JSON_stringify (val R') = Inr s
       \<and> (\<forall>w p. Send w p \<in> set es \<longrightarrow> p = Some s)
       \<and> (\<forall>b k x. PutObject b k x \<in> set es \<longrightarrow> k = key R \<and> x = val R')
       \<and> (thrown = None \<longrightarrow> PutObject (name (morayBucket self)) (key R) (val R') \<in> set es)"
proof -
  let ?v = "(val R)\<lparr>published := toString now\<rparr>"
  obtain es2 ex where d: "deliver self ?v (Some s) (obj_keys (registrations self)) = (es2, ex)"
    by (cases "deliver self ?v (Some s) (obj_keys (registrations self))")
  from deliver_effects [OF d]
  have e2: "\<forall>e \<in> set es2. (\<forall>w p. e = Send w p \<longrightarrow> p = Some s) \<and> \<not> is_PutObject e" .
  from run d ser have R': "R' = R\<lparr>val := ?v\<rparr>" and thrown: "thrown = ex"
    and es: "es = Log Info [] # es2 @ (if ex = None then [PutObject (name (morayBucket self)) (key R) ?v] else [])"
    by (auto simp: on_record_def Let_def split: option.splits)
  have "\<forall>w p. Send w p \<in> set es \<longrightarrow> p = Some s" using e2 by (auto simp: es)
  moreover have "\<forall>b k x. PutObject b k x \<in> set es \<longrightarrow> k = key R \<and> x = val R'"
    using e2 by (auto simp: es R')
  moreover have "thrown = None \<longrightarrow> PutObject (name (morayBucket self)) (key R) (val R') \<in> set es"
    by (simp add: es R' thrown)
  moreover have "published (val R') \<noteq> ''no''" by (simp add: R' toString_not_no)
  ultimately show ?thesis using ser by (simp add: R')
qed

theorem sent_and_written_same_value_witness:
  \<open>stringify_value ((val record_nics)\<lparr>published := toString 1446\<rparr>) =
        Inr ''{"changeKind":{"resource":"vm","subResources":["nics","tags"]},"published":"1446"}''
   \<and> val (fst (on_record stringify_value 1446 self1 record_nics)) = value_nics\<lparr>published := ''1446''\<rparr>
   \<and> filter is_Send (fst (snd (on_record stringify_value 1446 self1 record_nics))) =
        [Send ws1 (Some ''{"changeKind":{"resource":"vm","subResources":["nics","tags"]},"published":"1446"}'')]
   \<and> PutObject ''change_feed_bucket'' ''k1'' (value_nics\<lparr>published := ''1446''\<rparr>)
        \<in> set (fst (snd (on_record stringify_value 1446 self1 record_nics)))\<close>
proof -
  have h1: \<open>stringify_value ((val record_nics)\<lparr>published := toString 1446\<rparr>) =
        Inr ''{"changeKind":{"resource":"vm","subResources":["nics","tags"]},"published":"1446"}''\<close>
    by code_simp
  have h2: "on_record stringify_value 1446 self1 record_nics =
      (fst (on_record stringify_value 1446 self1 record_nics),
       fst (snd (on_record stringify_value 1446 self1 record_nics)),
       snd (snd (on_record stringify_value 1446 self1 record_nics)))"
    by simp
  have v: "(val record_nics)\<lparr>published := toString 1446\<rparr> = value_nics\<lparr>published := ''1446''\<rparr>"
    by code_simp
  have t: "snd (snd (on_record stringify_value 1446 self1 record_nics)) = None" by code_simp
  have n: "name (morayBucket self1) = ''change_feed_bucket''" by code_simp
  have k: "key record_nics = ''k1''" by code_simp
  have b: \<open>filter is_Send (fst (snd (on_record stringify_value 1446 self1 record_nics))) =
        [Send ws1 (Some ''{"changeKind":{"resource":"vm","subResources":["nics","tags"]},"published":"1446"}'')]\<close>
    by code_simp
  note c = sent_and_written_same_value [OF h1 h2]
  from c have a: "val (fst (on_record stringify_value 1446 self1 record_nics)) = value_nics\<lparr>published := ''1446''\<rparr>"
    by (simp add: v)
  from c t have "PutObject (name (morayBucket self1)) (key record_nics)
       (val (fst (on_record stringify_value 1446 self1 record_nics)))
        \<in> set (fst (snd (on_record stringify_value 1446 self1 record_nics)))"
    by blast
  then have d: "PutObject ''change_feed_bucket'' ''k1'' (value_nics\<lparr>published := ''1446''\<rparr>)
        \<in> set (fst (snd (on_record stringify_value 1446 self1 record_nics)))"
    by (simp only: a n k)
  from h1 a b d show ?thesis by blast
qed

lemma deliver_null:
  assumes "\<forall>k \<in> set ks. obj_get (registrations self) k \<noteq> None \<and> obj_get (websockets self) k \<noteq> None"
    and "\<exists>k \<in> set ks. matches (the (obj_get (registrations self) k)) v"
  shows "\<exists>es. deliver self v None ks = (es, Some AssertionError)
              \<and> (\<forall>e \<in> set es. \<not> is_Send e \<and> \<not> is_PutObject e)"
  using assms
proof (induction ks)
  case Nil
  then show ?case by simp
next
  case (Cons k ks)
  from Cons.prems obtain g w where g: "obj_get (registrations self) k = Some g"
    and w: "obj_get (websockets self) k = Some w" by auto
  show ?case
  proof (cases "matches g v")
    case True
    with g w show ?thesis by (simp add: scan_eq matches_def)
  next
    case False
    with Cons.prems g have "\<exists>k \<in> set ks. matches (the (obj_get (registrations self) k)) v" by auto
    with Cons obtain es where es: "deliver self v None ks = (es, Some AssertionError)"
      and no: "\<forall>e \<in> set es. \<not> is_Send e \<and> \<not> is_PutObject e" by auto
    from False g w es no show ?thesis
      by (auto simp: scan_eq matches_def Let_def)
  qed
qed

lemma unserializable_matching_throws:
  fixes self :: "'d publisher" and R :: "'a bucket_record"
  assumes ok: "registry_ok self"
    and G: "obj_get (registrations self) iname = Some G"
    and m: "matches G (val R)"
    and ser: "JSON_stringify ((val R)\<lparr>published := toString now\<rparr>) = Inl ex"
    and run: "on_record JSON_stringify now self R = (R', es, thrown)"
  shows "thrown = Some AssertionError \<and> filter is_Send es = [] \<and> filter is_PutObject es = []"
proof -
  let ?v = "(val R)\<lparr>published := toString now\<rparr>"
  let ?ks = "obj_keys (registrations self)"
  have a: "\<forall>k \<in> set ?ks. obj_get (registrations self) k \<noteq> None \<and> obj_get (websockets self) k \<noteq> None"
    using registry_ok_lookup [OF ok] by blast
  have i: "iname \<in> set ?ks" using G obj_get_None [of "registrations self" iname] by simp
  have "matches G ?v" using m by (simp add: matches_def)
  with i G have b: "\<exists>k \<in> set ?ks. matches (the (obj_get (registrations self) k)) ?v" by force
  from deliver_null [OF a b] obtain es2 where d: "deliver self ?v None ?ks = (es2, Some AssertionError)"
    and no: "\<forall>e \<in> set es2. \<not> is_Send e \<and> \<not> is_PutObject e" by blast
  from run d ser have "thrown = Some AssertionError"
    and "es = Log Info [] # Log Error ''Error serializing value: %s'' # es2"
    by (simp_all add: on_record_def Let_def)
  with no show ?thesis by (simp add: filter_empty_conv)
qed

text \<open>
  Claim C4 at a value that does not serialize, with the listener \<open>i1\<close> registered for
  it. The failure is caught and logged, as the claim says, but \<open>strValue\<close> is still
  \<open>null\<close> when the loops run, and no test guards them. At the entry of \<open>i1\<close> the
  callback calls \<open>send(null)\<close>, which throws, and the exception leaves the callback.
  Nothing has been sent; but the \<open>putObject\<close> is never made: the callback does not
  write the record back with its mark.
\<close>

theorem unserializable_value_not_marked:
  "on_record stringify_value 1446 self1 record_cyclic =
     (record_cyclic\<lparr>val := value_cyclic\<lparr>published := ''1446''\<rparr>\<rparr>,
      [Log Info [], Log Error ''Error serializing value: %s''],
      Some AssertionError)"
  by code_simp

subsection \<open>The registry\<close>


lemma register_state:
  "fst (register JSON_parse JSON_stringify self w text) =
     (case JSON_parse text of
        Inl ex \<Rightarrow> self
      | Inr g \<Rightarrow> self\<lparr>websockets := obj_set (inst g) w (websockets self),
                     registrations := obj_set (inst g) g (registrations self)\<rparr>)"
  by (simp add: register_def Let_def split: sum.splits prod.splits option.splits)

lemma register_registry_ok:
  assumes "registry_ok self"
  shows "registry_ok (fst (register JSON_parse JSON_stringify self w text))"
  using assms
  by (simp add: register_state registry_ok_def keys_obj_set distinct_obj_set split: sum.splits)

lemma collect_keys:
  fixes es :: "'a effect list"
  assumes "set (obj_keys (registrations self)) = set (obj_keys (websockets self))"
    and "collect this ks self = (self', es, ex)"
  shows "set (obj_keys (registrations self')) = set (obj_keys (websockets self'))"
  using assms
proof (induction ks arbitrary: self self' es ex)
  case Nil
  then show ?case by simp
next
  case (Cons k ks)
  show ?case
  proof (cases "obj_get (websockets self) k")
    case None
    with Cons.prems show ?thesis by simp
  next
    case (Some w)
    show ?thesis
    proof (cases "ws_id this = ws_id w")
      case True
      let ?s = "self\<lparr>websockets := obj_delete k (websockets self),
                     registrations := obj_delete k (registrations self)\<rparr>"
      obtain s3 and es3 :: "'a effect list" and ex3 where c: "collect this ks ?s = (s3, es3, ex3)"
        by (cases "collect this ks ?s :: _ \<times> 'a effect list \<times> _")
      have "set (obj_keys (registrations ?s)) = set (obj_keys (websockets ?s))"
        using Cons.prems(1) by (simp add: keys_obj_delete)
      from Cons.IH [OF this c] have "set (obj_keys (registrations s3)) = set (obj_keys (websockets s3))" .
      moreover from Cons.prems(2) Some True c have "self' = s3" by (simp add: Let_def)
      ultimately show ?thesis by simp
    next
      case False
      with Cons.prems(2) Some have "collect this ks self = (self', es, ex)" by simp
      from Cons.IH [OF Cons.prems(1) this] show ?thesis .
    qed
  qed
qed

lemma collect_distinct:
  fixes es :: "'a effect list"
  assumes "distinct (obj_keys (registrations self)) \<and> distinct (obj_keys (websockets self))"
    and "collect this ks self = (self', es, ex)"
  shows "distinct (obj_keys (registrations self')) \<and> distinct (obj_keys (websockets self'))"
  using assms
proof (induction ks arbitrary: self self' es ex)
  case Nil
  then show ?case by simp
next
  case (Cons k ks)
  show ?case
  proof (cases "obj_get (websockets self) k")
    case None
    with Cons.prems show ?thesis by simp
  next
    case (Some w)
    show ?thesis
    proof (cases "ws_id this = ws_id w")
      case True
      let ?s = "self\<lparr>websockets := obj_delete k (websockets self),
                     registrations := obj_delete k (registrations self)\<rparr>"
      obtain s3 and es3 :: "'a effect list" and ex3 where c: "collect this ks ?s = (s3, es3, ex3)"
        by (cases "collect this ks ?s :: _ \<times> 'a effect list \<times> _")
      have "distinct (obj_keys (registrations ?s)) \<and> distinct (obj_keys (websockets ?s))"
        using Cons.prems(1) by (simp add: keys_obj_delete distinct_removeAll)
      from Cons.IH [OF this c]
      have "distinct (obj_keys (registrations s3)) \<and> distinct (obj_keys (websockets s3))" .
      moreover from Cons.prems(2) Some True c have "self' = s3" by (simp add: Let_def)
      ultimately show ?thesis by simp
    next
      case False
      with Cons.prems(2) Some have "collect this ks self = (self', es, ex)" by simp
      from Cons.IH [OF Cons.prems(1) this] show ?thesis .
    qed
  qed
qed

lemma collect_registry_ok:
  fixes es :: "'a effect list"
  assumes "registry_ok self" and "collect this ks self = (self', es, ex)"
  shows "registry_ok self'"
  using assms collect_keys [of self this ks self' es ex] collect_distinct [of self this ks self' es ex]
  by (simp add: registry_ok_def)

text \<open>
  Claim C9. Each of the three callbacks that write the registry (the registration on the
  first text frame, the cleanup on \<open>end\<close>, the cleanup on \<open>connectionReset\<close>) leaves
  \<open>self.registrations\<close> and \<open>self.websockets\<close> with the same set of names when it found
  them so, whether it returns or throws. The two objects are empty when the publisher is
  constructed.
\<close>

theorem registry_names_agree:
  fixes self :: "'d publisher"
    and registered ended reset :: "('d publisher, 'a) outcome"
  assumes "set (obj_keys (registrations self)) = set (obj_keys (websockets self))"
    and "registered = register JSON_parse JSON_stringify self w text"
    and "ended = on_end self w_ended"
    and "reset = connectionReset self w_reset"
  shows "set (obj_keys (registrations (fst registered))) = set (obj_keys (websockets (fst registered)))
       \<and> set (obj_keys (registrations (fst ended))) = set (obj_keys (websockets (fst ended)))
       \<and> set (obj_keys (registrations (fst reset))) = set (obj_keys (websockets (fst reset)))"
proof -
  have "set (obj_keys (registrations (fst registered))) = set (obj_keys (websockets (fst registered)))"
    using assms(1,2) by (simp add: register_state keys_obj_set split: sum.splits)
  moreover have "set (obj_keys (registrations (fst ended))) = set (obj_keys (websockets (fst ended)))"
    using collect_keys [OF assms(1), of w_ended "obj_keys (registrations self)" "fst ended" "fst (snd ended)" "snd (snd ended)"] assms(3)
    by (simp add: on_end_def)
  moreover have "set (obj_keys (registrations (fst reset))) = set (obj_keys (websockets (fst reset)))"
    using collect_keys [OF assms(1), of w_reset "obj_keys (registrations self)" "fst reset" "fst (snd reset)" "snd (snd reset)"] assms(4)
    by (simp add: connectionReset_def)
  ultimately show ?thesis by simp
qed

theorem registry_names_agree_witness:
  "set (obj_keys (registrations self1)) = set (obj_keys (websockets self1))
   \<and> set (obj_keys (registrations (fst (register parse1 stringify_kind self1 ws2 text_i2
          :: (unit change_kind_ext) publisher \<times> further effect list \<times> error option)))) = {''i1'', ''i2''}
   \<and> set (obj_keys (websockets (fst (register parse1 stringify_kind self1 ws2 text_i2
          :: (unit change_kind_ext) publisher \<times> further effect list \<times> error option)))) = {''i1'', ''i2''}
   \<and> set (obj_keys (registrations (fst (on_end self1 ws1
          :: (unit change_kind_ext) publisher \<times> further effect list \<times> error option)))) = {}
   \<and> set (obj_keys (websockets (fst (on_end self1 ws1
          :: (unit change_kind_ext) publisher \<times> further effect list \<times> error option)))) = {}
   \<and> set (obj_keys (websockets (fst (connectionReset self1 ws2
          :: (unit change_kind_ext) publisher \<times> further effect list \<times> error option)))) = {''i1''}
   \<and> set (obj_keys (registrations (fst (connectionReset self1 ws2
          :: (unit change_kind_ext) publisher \<times> further effect list \<times> error option)))) = {''i1''}"
proof -
  have h: "set (obj_keys (registrations self1)) = set (obj_keys (websockets self1))"
    by (simp add: self1_def obj_keys_def)
  have a: "set (obj_keys (websockets (fst (register parse1 stringify_kind self1 ws2 text_i2
          :: (unit change_kind_ext) publisher \<times> further effect list \<times> error option)))) = {''i1'', ''i2''}"
    by code_simp
  have b: "set (obj_keys (websockets (fst (on_end self1 ws1
          :: (unit change_kind_ext) publisher \<times> further effect list \<times> error option)))) = {}"
    by code_simp
  have c: "set (obj_keys (websockets (fst (connectionReset self1 ws2
          :: (unit change_kind_ext) publisher \<times> further effect list \<times> error option)))) = {''i1''}"
    by code_simp
  from registry_names_agree [OF h refl refl refl, of parse1 stringify_kind ws2 text_i2 ws1 ws2,
      where ?'a = further] h a b c
  show ?thesis by simp
qed

text \<open>
  The registry is well formed when the publisher is constructed and stays so through
  every run of the event loop. A websocket is listened to for one text frame only.
\<close>

lemma boot_registry_ok: "registry_ok (pub (boot opts))"
  by (simp add: boot_def Publisher_def registry_ok_def obj_keys_def)

lemma step_registry_ok:
  fixes w :: "'d world" and e :: "'a event"
  assumes "registry_ok (pub w)"
  shows "registry_ok (pub (fst (step P D V w e)))"
proof (cases e)
  case Call_start
  with assms show ?thesis
    by (simp add: start_def setInterval_def registry_ok_def)
next
  case Call_stop
  with assms show ?thesis
    by (simp add: stop_def clearInterval_def split: option.splits)
next
  case (Upgrade accepted)
  with assms show ?thesis
    by (simp add: upgrade_def split: option.splits)
next
  case (Ws_text websocket t)
  let ?w = "w\<lparr>awaiting_text := removeAll (ws_id websocket) (awaiting_text w)\<rparr>"
  have "registry_ok (fst (register P D (pub ?w) websocket t :: ('d publisher, 'a) outcome))"
    using assms by (intro register_registry_ok) simp
  with assms Ws_text show ?thesis
    by (auto simp: Let_def split: prod.splits)
next
  case (Ws_end websocket)
  obtain s and es :: "'a effect list" and ex where c: "on_end (pub w) websocket = (s, es, ex)"
    by (cases "on_end (pub w) websocket :: _ \<times> 'a effect list \<times> _")
  then have "registry_ok s"
    using collect_registry_ok [OF assms] by (simp add: on_end_def)
  with Ws_end c show ?thesis by simp
next
  case (Ws_connectionReset websocket)
  obtain s and es :: "'a effect list" and ex where c: "connectionReset (pub w) websocket = (s, es, ex)"
    by (cases "connectionReset (pub w) websocket :: _ \<times> 'a effect list \<times> _")
  then have "registry_ok s"
    using collect_registry_ok [OF assms] by (simp add: connectionReset_def)
  with Ws_connectionReset c show ?thesis by simp
qed (use assms in \<open>simp_all split: prod.splits\<close>)

lemma run_registry_ok:
  fixes w :: "'d world" and evs :: "'a event list"
  assumes "registry_ok (pub w)"
  shows "registry_ok (pub (fst (run P D V w evs)))"
  using assms
proof (induction evs arbitrary: w)
  case Nil
  then show ?case by simp
next
  case (Cons e evs)
  obtain w' es ex where s: "step P D V w e = (w', es, ex)" by (cases "step P D V w e")
  from step_registry_ok [OF Cons.prems, of P D V e] s have ok: "registry_ok (pub w')" by simp
  show ?case
  proof (cases ex)
    case None
    from Cons.IH [OF ok] s None show ?thesis by (auto split: prod.splits)
  next
    case (Some x)
    with s ok show ?thesis by simp
  qed
qed

lemma second_text_ignored:
  "ws_id websocket \<notin> set (awaiting_text w) \<Longrightarrow> step P D V w (Ws_text websocket t) = (w, [], None)"
  by simp

lemma first_text_disarms:
  "ws_id websocket \<notin> set (awaiting_text (fst (step P D V w (Ws_text websocket t))))"
  by (simp add: Let_def split: prod.splits)

subsection \<open>The registration handshake\<close>




text \<open>
  Claim C5, as stated, fails. On a text that is not JSON the exception of
  \<open>JSON.parse\<close> leaves the callback, and the callback logs nothing.
\<close>

theorem malformed_text_throws_counterexample:
  "snd (snd (register parse1 stringify_kind self0 ws1 text_bad
          :: (unit change_kind_ext) publisher \<times> further effect list \<times> error option)) = Some SyntaxError
   \<and> filter is_Log (fst (snd (register parse1 stringify_kind self0 ws1 text_bad
          :: (unit change_kind_ext) publisher \<times> further effect list \<times> error option))) = []"
  by code_simp

text \<open>
  Claim C5, as the module has it. When \<open>JSON.parse\<close> throws on the first text frame,
  the exception leaves \<open>_register\<close>: the callback has no handler for it. Nothing has
  been done by then: the registry is as it was, with no entry created, nothing is
  logged, nothing is sent and the websocket is not closed.
\<close>

theorem malformed_text_throws:
  assumes "JSON_parse text = Inl ex"
  shows "register JSON_parse JSON_stringify self w text = (self, [], Some ex)"
  using assms by (simp add: register_def)

theorem malformed_text_throws_witness:
  "parse1 text_bad = Inl SyntaxError
   \<and> (register parse1 stringify_kind self0 ws1 text_bad
          :: (unit change_kind_ext) publisher \<times> further effect list \<times> error option)
       = (self0, [], Some SyntaxError)"
proof -
  have p: "parse1 text_bad = Inl SyntaxError" by code_simp
  from malformed_text_throws
         [of parse1 text_bad SyntaxError, OF p] p
  show ?thesis by simp
qed

subsection \<open>The registry during the loops of a record\<close>

text \<open>
  Once the \<open>end\<close> or the \<open>connectionReset\<close> of a websocket has been handled, no name of
  the registry holds that websocket.
\<close>

lemma collect_removes:
  fixes es :: "'a effect list"
  assumes "distinct ks"
    and "\<forall>k \<in> set ks. obj_get (websockets self) k \<noteq> None"
    and "collect this ks self = (self', es, ex)"
  shows "ex = None \<and>
         (\<forall>k w. obj_get (websockets self') k = Some w \<longrightarrow>
            obj_get (websockets self) k = Some w \<and> (k \<in> set ks \<longrightarrow> ws_id w \<noteq> ws_id this))"
  using assms
proof (induction ks arbitrary: self self' es ex)
  case Nil
  then show ?case by simp
next
  case (Cons k ks)
  from Cons.prems obtain w where w: "obj_get (websockets self) k = Some w" by auto
  show ?case
  proof (cases "ws_id this = ws_id w")
    case True
    let ?s = "self\<lparr>websockets := obj_delete k (websockets self),
                   registrations := obj_delete k (registrations self)\<rparr>"
    obtain s3 and es3 :: "'a effect list" and ex3 where c: "collect this ks ?s = (s3, es3, ex3)"
      by (cases "collect this ks ?s :: _ \<times> 'a effect list \<times> _")
    from Cons.prems have d: "distinct ks" and nk: "k \<notin> set ks" by simp_all
    have a: "\<forall>j \<in> set ks. obj_get (websockets ?s) j \<noteq> None"
      using Cons.prems(2) nk by (auto simp: obj_get_delete)
    from Cons.IH [OF d a c]
    have ih: "ex3 = None \<and> (\<forall>j w'. obj_get (websockets s3) j = Some w' \<longrightarrow>
            obj_get (websockets ?s) j = Some w' \<and> (j \<in> set ks \<longrightarrow> ws_id w' \<noteq> ws_id this))" .
    from Cons.prems(3) w True c have eq: "self' = s3" "ex = ex3" by (simp_all add: Let_def)
    have "\<forall>j w'. obj_get (websockets s3) j = Some w' \<longrightarrow>
            obj_get (websockets self) j = Some w' \<and> (j \<in> set (k # ks) \<longrightarrow> ws_id w' \<noteq> ws_id this)"
    proof (intro allI impI)
      fix j w' assume "obj_get (websockets s3) j = Some w'"
      with ih have 1: "obj_get (websockets ?s) j = Some w'"
        and 2: "j \<in> set ks \<longrightarrow> ws_id w' \<noteq> ws_id this" by blast+
      from 1 have "j \<noteq> k" and "obj_get (websockets self) j = Some w'"
        by (auto simp: obj_get_delete split: if_splits)
      with 2 show "obj_get (websockets self) j = Some w' \<and> (j \<in> set (k # ks) \<longrightarrow> ws_id w' \<noteq> ws_id this)"
        by simp
    qed
    with ih show ?thesis unfolding eq by simp
  next
    case False
    with Cons.prems(3) w have c: "collect this ks self = (self', es, ex)" by simp
    from Cons.prems have d: "distinct ks" and a: "\<forall>j \<in> set ks. obj_get (websockets self) j \<noteq> None"
      by simp_all
    from Cons.IH [OF d a c] w False show ?thesis by auto
  qed
qed

lemma on_end_removes:
  fixes es :: "'a effect list"
  assumes ok: "registry_ok self" and e: "on_end self this = (self', es, ex)"
  shows "ex = None \<and> registry_ok self' \<and>
         (\<forall>k w. obj_get (websockets self') k = Some w \<longrightarrow>
            obj_get (websockets self) k = Some w \<and> ws_id w \<noteq> ws_id this)"
proof -
  let ?ks = "obj_keys (registrations self)"
  from e have c: "collect this ?ks self = (self', es, ex)" by (simp add: on_end_def)
  have d: "distinct ?ks" using ok by (simp add: registry_ok_def)
  have a: "\<forall>k \<in> set ?ks. obj_get (websockets self) k \<noteq> None"
    using registry_ok_lookup [OF ok] by blast
  note r = collect_removes [OF d a c]
  have "\<forall>k w. obj_get (websockets self') k = Some w \<longrightarrow>
            obj_get (websockets self) k = Some w \<and> ws_id w \<noteq> ws_id this"
  proof (intro allI impI)
    fix k w assume s: "obj_get (websockets self') k = Some w"
    with r have o: "obj_get (websockets self) k = Some w" by blast
    then have "k \<in> set (obj_keys (websockets self))"
      using obj_get_None [of "websockets self" k] by simp
    then have "k \<in> set ?ks" using ok by (simp add: registry_ok_def)
    with r s o show "obj_get (websockets self) k = Some w \<and> ws_id w \<noteq> ws_id this" by blast
  qed
  with r collect_registry_ok [OF ok c] show ?thesis by simp
qed

lemma connectionReset_on_end: "connectionReset self this = on_end self this"
  by (simp add: connectionReset_def on_end_def)





subsection \<open>\<open>stop\<close>\<close>

text \<open>
  Claim C7 at a query in flight. The publisher is started, the interval fires and issues
  its query, and \<open>stop\<close> is called while the query is in flight. The record and the end
  of the query then arrive: their callbacks send the record to the listener \<open>i1\<close>,
  emit \<open>item-published\<close> and \<open>no-items\<close>, and issue the \<open>putObject\<close>, all after the
  \<open>close\<close> of \<open>stop\<close>. The comment of \<open>stop\<close> says that it halts all publishing
  operations, Moray polling and WebSocket push included; no callback tests whether the
  publisher was stopped.
\<close>

theorem callbacks_run_after_stop:
  \<open>run parse1 stringify_kind stringify_value world1
       [Call_start, Interval_fires 0, Call_stop, Req_record 1446 record_nics, Req_end] =
     (world1\<lparr>pub := self1\<lparr>pollInterval := Some 0\<rparr>, intervals := [], next_handle := 1\<rparr>,
      [FindObjects ''change_feed_bucket'' ''(published=no)'',
       MorayClose,
       Log Info [],
       Send ws1 (Some ''{"changeKind":{"resource":"vm","subResources":["nics","tags"]},"published":"1446"}''),
       Log Info ''Published: %s'',
       Emit item_published,
       PutObject ''change_feed_bucket'' ''k1'' (value_nics\<lparr>published := ''1446''\<rparr>),
       Emit no_items,
       Log Info ''findObjects ended''],
      None)\<close>
  by code_simp

text \<open>
  What \<open>stop\<close> does: it clears the interval whose handle is in \<open>self.pollInterval\<close> and
  closes the Moray client, and it writes no field of \<open>self\<close>. The callbacks of a query or
  of a write do after it what they do before it. An interval set by an earlier \<open>start\<close>,
  whose handle a later \<open>start\<close> has overwritten, is not cleared.
\<close>

lemma stop_clears_held_interval:
  fixes w :: "'d world" and es :: "'a effect list"
  assumes stopped: "stop w = (w', es)"
    and polling: "pollInterval (pub w) = Some h"
  shows "es = [MorayClose]
       \<and> pub w' = pub w
       \<and> h \<notin> set (intervals w')
       \<and> step P D V w' (Interval_fires h) = (w', [], None)
       \<and> (set (intervals w) \<subseteq> {h} \<longrightarrow> (\<forall>n. step P D V w' (Interval_fires n) = (w', [], None)))
       \<and> snd (step P D V w' (Req_record now r)) = snd (step P D V w (Req_record now r))
       \<and> snd (step P D V w' Req_end) = (noItems, None)
       \<and> snd (step P D V w' PutObject_done) = (mark, None)"
proof -
  from stopped polling have w': "w' = w\<lparr>intervals := removeAll h (intervals w)\<rparr>"
    and es: "es = [MorayClose]"
    by (simp_all add: stop_def clearInterval_def)
  have "set (intervals w) \<subseteq> {h} \<longrightarrow> intervals w' = []"
    by (auto simp: w' removeAll_filter_not_eq filter_empty_conv)
  then have "set (intervals w) \<subseteq> {h} \<longrightarrow> (\<forall>n. step P D V w' (Interval_fires n) = (w', [], None))"
    by simp
  then show ?thesis
    by (simp add: es w' split: prod.splits)
qed

lemma double_start_leaves_interval:
  "intervals (fst (stop (start (start world1)) :: (unit change_kind_ext) world \<times> further effect list)) = [0]"
  by code_simp

subsection \<open>Setting up the bucket\<close>

text \<open>
  Claim C3, as stated, fails. \<open>getBucket\<close> fails with an error other than
  \<open>BucketNotFoundError\<close>; the error is logged and \<open>moray-ready\<close> is not emitted. Then
  \<open>start\<close> is called and the interval fires: the poll issues its \<open>findObjects\<close>.
  Polling has begun.
\<close>

theorem polling_after_failed_setup_counterexample:
  "name other_error \<noteq> ''BucketNotFoundError''
   \<and> run parse1 stringify_kind stringify_value (boot opts1)
       [Moray_connect, GetBucket_done (Some other_error), Call_start, Interval_fires 0] =
     ((boot opts1)\<lparr>pub := self0\<lparr>pollInterval := Some 0\<rparr>, intervals := [0], next_handle := 1\<rparr>,
      [Log Info ''moray: connected'', Emit moray_connected, GetBucket ''change_feed_bucket'',
       Log Error ''Bucket was not loaded'',
       FindObjects ''change_feed_bucket'' ''(published=no)'' :: further effect],
      None)"
  by code_simp

text \<open>
  Claim C3, as the module has it. When \<open>getBucket\<close> fails with \<open>BucketNotFoundError\<close>,
  \<open>createBucket\<close> is called with the bucket's name and an index on \<open>published\<close>, of
  type string; when \<open>createBucket\<close> succeeds, the callback of the setup logs the success
  and emits \<open>moray-ready\<close>. When \<open>getBucket\<close> fails with any other error, the callback
  of the setup is called with that very error and nothing else is done: it logs the
  error and does not emit \<open>moray-ready\<close>. No callback of the setup sets or clears an
  interval, and \<open>start\<close> asks nothing about the setup: whenever \<open>start\<close> is called, the
  interval it sets issues the query when it fires.
\<close>

theorem bucket_setup:
  fixes self :: "'d publisher" and w :: "'d world" and cb :: "error option \<Rightarrow> 'a effect list"
  shows "(name e = ''BucketNotFoundError'' \<longrightarrow>
            CreateBucket (name (morayBucket self)) (config_index (morayBucket self))
              \<in> set (getBucketError cb self (Some e)))
       \<and> config_index (morayBucket (Publisher opts)) = [(''published'', ''string'')]
       \<and> step P D V w (CreateBucket_done None) =
            (w, [Log Info ''Bucket successfully loaded'', Emit moray_ready], None)
       \<and> (name e \<noteq> ''BucketNotFoundError'' \<longrightarrow>
            getBucketError cb self (Some e) = cb (Some e)
            \<and> step P D V w (GetBucket_done (Some e)) = (w, [Log Error ''Bucket was not loaded''], None))
       \<and> step P D V w Call_start = (start w, [], None)
       \<and> step P D V (start w) (Interval_fires (next_handle w)) =
            (start w, [FindObjects (name (morayBucket (pub w))) ''(published=no)''], None)"
  by (simp add: getBucketError_def createBucket_def Publisher_def bucketSetupError_def
        start_def setInterval_def poll_def)

theorem bucket_setup_witness:
  "name not_found = ''BucketNotFoundError''
   \<and> name other_error \<noteq> ''BucketNotFoundError''
   \<and> CreateBucket ''change_feed_bucket'' [(''published'', ''string'')]
        \<in> set (getBucketError bucketSetupError self0 (Some not_found) :: further effect list)
   \<and> getBucketError bucketSetupError self0 (Some other_error) =
        [Log Error ''Bucket was not loaded'' :: further effect]"
proof -
  have n: "name not_found = ''BucketNotFoundError''" by (simp add: not_found_def)
  have o: "name other_error \<noteq> ''BucketNotFoundError''" by (simp add: other_error_def)
  have b: "name (morayBucket self0) = ''change_feed_bucket''
           \<and> config_index (morayBucket self0) = [(''published'', ''string'')]"
    by (simp add: self0_def Publisher_def opts1_def)
  have c: "bucketSetupError (Some other_error) = [Log Error ''Bucket was not loaded'' :: further effect]"
    by (simp add: bucketSetupError_def)
  from bucket_setup [where ?'a = further, of not_found self0 bucketSetupError opts1 parse1 stringify_kind
                       stringify_value world1] n b
  have 1: "CreateBucket ''change_feed_bucket'' [(''published'', ''string'')]
        \<in> set (getBucketError bucketSetupError self0 (Some not_found) :: further effect list)"
    by simp
  from bucket_setup [where ?'a = further, of other_error self0 bucketSetupError opts1 parse1 stringify_kind
                       stringify_value world1] o c
  have 2: "getBucketError bucketSetupError self0 (Some other_error) =
        [Log Error ''Bucket was not loaded'' :: further effect]"
    by simp
  from n o 1 2 show ?thesis by simp
qed

end
